theory Spec2Isabelle
  imports Complex_Main "HOL-Library.Sublist"
begin

section \<open>The datastore\<close>

text \<open>
  The tables the backend reads and writes, as lists of rows in the order in which the
  engine returns them.  Only the columns that \<^verbatim>\<open>backend.py\<close> names are kept.  Prices are
  exact rationals.
\<close>

record flight =
  flight_id :: int
  origin :: string
  destination :: string
  price :: rat
  available_seats :: int

record user_row =
  user_id :: nat
  u_first_name :: string
  u_last_name :: string
  u_email :: string

datatype booking_status = CONFIRMED | CANCELLED

record booking_row =
  booking_id :: nat
  b_user_id :: nat
  total_price :: rat
  status :: booking_status
  travel_purpose :: "string option"

record passenger_row =
  p_booking_id :: nat
  p_first_name :: string
  p_last_name :: string
  p_age :: int

record booking_flight_row =
  bf_booking_id :: nat
  bf_flight_id :: int
  num_passengers :: int

record db =
  flights :: "flight list"
  users :: "user_row list"
  bookings :: "booking_row list"
  passengers :: "passenger_row list"
  booking_flights :: "booking_flight_row list"

text \<open>
  What the datastore collaborator decides for one call: whether \<^verbatim>\<open>get_db_connection()\<close>
  returns a connection, which statement of a transaction (counted from 0 in execution
  order, the commit included) raises \<^verbatim>\<open>mysql.connector.Error\<close>, and the AUTO_INCREMENT
  keys it hands out for a new \<^verbatim>\<open>users\<close> and a new \<^verbatim>\<open>bookings\<close> row.
\<close>

record env =
  connects :: bool
  raises :: "nat \<Rightarrow> bool"
  new_user_id :: nat
  new_booking_id :: nat

section \<open>Itinerary resolution\<close>

text \<open>The consecutive pairs \<^verbatim>\<open>(route[i], route[i + 1])\<close> for \<^verbatim>\<open>i in range(len(route) - 1)\<close>.\<close>

definition route_pairs :: "string list \<Rightarrow> (string \<times> string) list" where
  "route_pairs route = zip route (tl route)"

text \<open>\<^verbatim>\<open>df[(df['origin'] == a) & (df['destination'] == b)]\<close>\<close>

definition legs_between :: "flight list \<Rightarrow> string \<Rightarrow> string \<Rightarrow> flight list" where
  "legs_between df a b = filter (\<lambda>f. origin f = a \<and> destination f = b) df"

text \<open>
  The second loop of \<^verbatim>\<open>get_flight_details_for_route\<close>: \<^verbatim>\<open>ordered\<close> and \<open>tot\<close> (the source's \<^verbatim>\<open>total\<close>) are
  the accumulators; on \<^verbatim>\<open>break\<close> they are returned as they stand, with \<^verbatim>\<open>ok = False\<close>.
\<close>

fun resolve_legs ::
  "flight list \<Rightarrow> (string \<times> string) list \<Rightarrow> flight list \<Rightarrow> rat \<Rightarrow> flight list \<times> rat \<times> bool" where
  "resolve_legs df [] ordered tot = (ordered, tot, True)"
| "resolve_legs df ((a, b) # ps) ordered tot =
     (case legs_between df a b of
        [] \<Rightarrow> (ordered, tot, False)
      | leg # _ \<Rightarrow>
          if available_seats leg = 0 then (ordered, tot, False)
          else resolve_legs df ps (ordered @ [leg]) (tot + price leg))"

text \<open>
  \<^verbatim>\<open>get_flight_details_for_route(route)\<close>; the argument is \<open>None\<close> for Python's \<^verbatim>\<open>None\<close>.
  The query selects every row of \<^verbatim>\<open>flights\<close> whose (origin, destination) is one of the
  route's consecutive pairs, with no filter on \<^verbatim>\<open>available_seats\<close>.
\<close>

definition get_flight_details_for_route ::
  "env \<Rightarrow> db \<Rightarrow> string list option \<Rightarrow> flight list \<times> rat \<times> bool" where
  "get_flight_details_for_route e d route_arg =
     (case route_arg of
        None \<Rightarrow> ([], 0, True)
      | Some route \<Rightarrow>
          if route = [] \<or> length route < 2 then ([], 0, True)
          else if \<not> connects e then ([], 0, False)
          else
            let df = filter (\<lambda>f. (origin f, destination f) \<in> set (route_pairs route)) (flights d)
            in if int (length df) < int (length route) - 1 then ([], 0, False)
               else resolve_legs df (route_pairs route) [] 0)"

section \<open>Sample data\<close>

definition mk_flight :: "int \<Rightarrow> string \<Rightarrow> string \<Rightarrow> rat \<Rightarrow> int \<Rightarrow> flight" where
  "mk_flight i a b p s =
     \<lparr>flight_id = i, origin = a, destination = b, price = p, available_seats = s\<rparr>"

definition db_of_flights :: "flight list \<Rightarrow> db" where
  "db_of_flights fs =
     \<lparr>flights = fs, users = [], bookings = [], passengers = [], booking_flights = []\<rparr>"

definition env_ok :: env where
  "env_ok = \<lparr>connects = True, raises = (\<lambda>k. False), new_user_id = 1, new_booking_id = 1\<rparr>"

text \<open>A leg A\<rightarrow>B with seats and a leg B\<rightarrow>C that is sold out.\<close>

definition db_sold_out :: db where
  "db_sold_out = db_of_flights
     [mk_flight 10 ''A'' ''B'' 100 5, mk_flight 11 ''B'' ''C'' 50 0]"

section \<open>Properties of itinerary resolution\<close>

text \<open>
  C10.  For a route of length less than 2 (the empty route and \<^verbatim>\<open>None\<close> included) the
  resolver returns an empty leg list, total 0 and \<open>ok = True\<close>, whatever the state of the
  connection and of the tables: the datastore is not consulted.
\<close>

theorem C10_short_route_ok:
  "get_flight_details_for_route e d None = ([], 0, True) \<and>
   (length route < 2 \<longrightarrow> get_flight_details_for_route e d (Some route) = ([], 0, True))"
  by (simp add: get_flight_details_for_route_def)

theorem C10_short_route_ok_witness:
  "length [''DEL''] < 2 \<and>
   get_flight_details_for_route (env_ok\<lparr>connects := False\<rparr>) db_sold_out (Some [''DEL''])
     = ([], 0, True)"
  using C10_short_route_ok [of "env_ok\<lparr>connects := False\<rparr>" db_sold_out "[''DEL'']"]
  by simp

text \<open>
  C2.  On the route A, B, C, where the leg B\<rightarrow>C exists but has no seat left, the resolver
  returns \<open>ok = False\<close> together with the leg A\<rightarrow>B and the total 100: the legs resolved
  before the failing pair are returned, not an empty list and a zero total.
\<close>

theorem C2_partial_result_on_break:
  "get_flight_details_for_route env_ok db_sold_out (Some [''A'', ''B'', ''C''])
     = ([mk_flight 10 ''A'' ''B'' 100 5], 100, False)"
  by (simp add: get_flight_details_for_route_def route_pairs_def legs_between_def
      db_sold_out_def db_of_flights_def env_ok_def mk_flight_def)

end
